theory Spec2Isabelle
  imports Main "HOL-Library.Char_ord" "HOL-Library.List_Lexorder"
begin

section \<open>JavaScript values used by the service\<close>

text \<open>
  A JavaScript string is a \<^typ>\<open>string\<close>, one \<^typ>\<open>char\<close> per code unit; the default
  comparison of \<open>Array.prototype.sort\<close> is the lexicographic order of the code units, which is
  the order of \<^typ>\<open>string\<close> from \<open>List_Lexorder\<close> over \<open>Char_ord\<close>.

  A plain object used as a dictionary (\<open>keyStore.keys\<close>, \<open>process.env\<close>, a parsed JSON object)
  is a list of own properties in creation order, with distinct names. Assigning to an existing
  name keeps its place, assigning to a new name appends, \<open>delete\<close> removes. Only own properties
  are modelled: names that an object inherits from \<open>Object.prototype\<close> (\<open>constructor\<close>,
  \<open>toString\<close>, \<open>__proto__\<close>, ...) are not key ids of this model.
\<close>

type_synonym 'v js_object = "(string \<times> 'v) list"

definition obj_get :: "'v js_object \<Rightarrow> string \<Rightarrow> 'v option" where
  "obj_get obj k = map_of obj k"

fun obj_set :: "'v js_object \<Rightarrow> string \<Rightarrow> 'v \<Rightarrow> 'v js_object" where
  "obj_set [] k v = [(k, v)]"
| "obj_set (p # ps) k v = (if fst p = k then (k, v) # ps else p # obj_set ps k v)"

definition obj_delete :: "'v js_object \<Rightarrow> string \<Rightarrow> 'v js_object" where
  "obj_delete obj k = filter (\<lambda>p. fst p \<noteq> k) obj"

text \<open>
  \<open>Object.keys\<close> lists the array-index names first, in ascending numeric order, then the
  other names in creation order. An array index is the canonical decimal numeral of an integer
  below \<open>2^32 - 1\<close>.
\<close>

definition is_digit :: "char \<Rightarrow> bool" where
  "is_digit c = (CHR ''0'' \<le> c \<and> c \<le> CHR ''9'')"

definition digit_value :: "char \<Rightarrow> nat" where
  "digit_value c = of_char c - 48"

definition decimal_value :: "string \<Rightarrow> nat" where
  "decimal_value s = foldl (\<lambda>acc c. 10 * acc + digit_value c) 0 s"

definition is_array_index :: "string \<Rightarrow> bool" where
  "is_array_index s =
     (s \<noteq> [] \<and> list_all is_digit s \<and> (s = ''0'' \<or> hd s \<noteq> CHR ''0'')
      \<and> decimal_value s < 4294967295)"

definition object_entries :: "'v js_object \<Rightarrow> (string \<times> 'v) list" where
  "object_entries obj =
     sort_key (\<lambda>p. decimal_value (fst p)) (filter (\<lambda>p. is_array_index (fst p)) obj)
     @ filter (\<lambda>p. \<not> is_array_index (fst p)) obj"

definition object_keys :: "'v js_object \<Rightarrow> string list" where
  "object_keys obj = map fst (object_entries obj)"

text \<open>\<open>a || b\<close> on strings that may be undefined: the empty string is falsy.\<close>

definition truthy :: "string option \<Rightarrow> bool" where
  "truthy v = (case v of None \<Rightarrow> False | Some s \<Rightarrow> s \<noteq> [])"

definition or_default :: "string option \<Rightarrow> string \<Rightarrow> string" where
  "or_default v d = (case v of None \<Rightarrow> d | Some s \<Rightarrow> if s = [] then d else s)"

text \<open>Decimal rendering of an index inside a template literal.\<close>

fun show_nat :: "nat \<Rightarrow> string" where
  "show_nat n =
     (if n < 10 then [char_of (48 + n)]
      else show_nat (n div 10) @ [char_of (48 + n mod 10)])"

declare show_nat.simps [simp del]

type_synonym environment = "string \<Rightarrow> string option"

text \<open>A thrown error, by its \<open>name\<close>, with its message.\<close>

datatype js_error =
  Error string
| TypeError string
| JsonWebTokenError string
| TokenExpiredError string
| NotBeforeError string

datatype log_line = LogInfo string | LogWarn string | LogError string

section \<open>keyManager.js\<close>

record key_pair =
  privateKey :: string
  publicKey :: string

record key_store =
  activeKid :: "string option"
  keys :: "key_pair js_object"

text \<open>The module-level \<open>keyStore\<close> before \<open>initialize\<close> runs.\<close>

definition empty_key_store :: key_store where
  "empty_key_store = \<lparr>activeKid = None, keys = []\<rparr>"

text \<open>
  \<open>loadKeyFromEnv\<close>. The indexed environment entries \<open>JWT_PRIVATE_KEY_i\<close>,
  \<open>JWT_PUBLIC_KEY_i\<close>, \<open>JWT_KEY_ID_i\<close> are read through \<open>process.env\<close>.
\<close>

definition loadKeyFromEnv :: "environment \<Rightarrow> nat \<Rightarrow> (string \<times> key_pair) option" where
  "loadKeyFromEnv env index =
     (let private = env (''JWT_PRIVATE_KEY_'' @ show_nat index);
          public = env (''JWT_PUBLIC_KEY_'' @ show_nat index);
          kid = or_default (env (''JWT_KEY_ID_'' @ show_nat index)) (''auth-key-'' @ show_nat index)
      in case (private, public) of
           (Some private_pem, Some public_pem) \<Rightarrow>
             if private_pem \<noteq> [] \<and> public_pem \<noteq> []
             then Some (kid, \<lparr>privateKey = private_pem, publicKey = public_pem\<rparr>)
             else None
         | _ \<Rightarrow> None)"


text \<open>
  The \<open>while (true)\<close> loop of the production branch, from slot \<open>index\<close> on. It stops at the
  first slot without a key pair. The environment of a process is finite, so the number of
  slots it can hold bounds the loop; \<open>fuel\<close> is that bound (\<open>load_env_keys_terminates\<close> below:
  beyond the first missing slot the bound does not matter).
\<close>

fun load_env_keys :: "environment \<Rightarrow> nat \<Rightarrow> nat \<Rightarrow> key_pair js_object \<Rightarrow> key_pair js_object" where
  "load_env_keys env 0 index ks = ks"
| "load_env_keys env (Suc fuel) index ks =
     (case loadKeyFromEnv env index of
        None \<Rightarrow> ks
      | Some (kid, kp) \<Rightarrow> load_env_keys env fuel (Suc index) (obj_set ks kid kp))"

text \<open>The last lines of \<open>initialize\<close>: choosing the active key id among the loaded keys.\<close>

definition select_active_kid :: "environment \<Rightarrow> key_store \<Rightarrow> key_store" where
  "select_active_kid env ks =
     (let use_configured =
            (case env ''JWT_ACTIVE_KID'' of
               None \<Rightarrow> False
             | Some activeKidFromEnv \<Rightarrow>
                 activeKidFromEnv \<noteq> [] \<and> obj_get (keys ks) activeKidFromEnv \<noteq> None)
      in
      if use_configured
      then ks\<lparr>activeKid := env ''JWT_ACTIVE_KID''\<rparr>
      else if length (object_keys (keys ks)) > 0
      then (case rev (sort (object_keys (keys ks))) of
              kid # _ \<Rightarrow> ks\<lparr>activeKid := Some kid\<rparr>
            | [] \<Rightarrow> ks)
      else ks)"


definition getActivePrivateKey :: "key_store \<Rightarrow> string option" where
  "getActivePrivateKey ks =
     (case activeKid ks of
        None \<Rightarrow> None
      | Some kid \<Rightarrow>
          if kid = [] then None
          else (case obj_get (keys ks) kid of None \<Rightarrow> None | Some kp \<Rightarrow> Some (privateKey kp)))"

definition getActiveKid :: "key_store \<Rightarrow> string option" where
  "getActiveKid ks = activeKid ks"


text \<open>\<open>getAllPublicKeys\<close> copies the entries in the enumeration order of \<open>Object.entries\<close>.\<close>

definition getAllPublicKeys :: "key_store \<Rightarrow> string js_object" where
  "getAllPublicKeys ks =
     foldl (\<lambda>publicKeys (kid, keyPair). obj_set publicKeys kid (publicKey keyPair))
       [] (object_entries (keys ks))"

definition getAllKids :: "key_store \<Rightarrow> string list" where
  "getAllKids ks = object_keys (keys ks)"

definition addKey ::
  "string \<Rightarrow> string \<Rightarrow> string \<Rightarrow> bool \<Rightarrow> key_store \<Rightarrow> key_store \<times> (js_error + unit)" where
  "addKey kid private public setAsActive ks =
     (if kid = [] \<or> private = [] \<or> public = []
      then (ks, Inl (Error ''kid, privateKey, and publicKey are required''))
      else
        (let ks1 = ks\<lparr>keys := obj_set (keys ks) kid \<lparr>privateKey = private, publicKey = public\<rparr>\<rparr>
         in (if setAsActive then ks1\<lparr>activeKid := Some kid\<rparr> else ks1, Inr ())))"

definition removeKey :: "string \<Rightarrow> key_store \<Rightarrow> key_store \<times> log_line" where
  "removeKey kid ks =
     (if kid = [] \<or> obj_get (keys ks) kid = None
      then (ks, LogWarn (''Key not found for removal: '' @ kid))
      else if Some kid = activeKid ks
      then (ks, LogWarn (''Cannot remove active key: '' @ kid))
      else (ks\<lparr>keys := obj_delete (keys ks) kid\<rparr>, LogInfo (''Removed key: '' @ kid)))"

definition setActiveKid :: "string \<Rightarrow> key_store \<Rightarrow> key_store \<times> (js_error + unit)" where
  "setActiveKid kid ks =
     (if obj_get (keys ks) kid = None
      then (ks, Inl (Error (''Key not found: '' @ kid)))
      else (ks\<lparr>activeKid := Some kid\<rparr>, Inr ()))"

record key_store_state =
  state_activeKid :: "string option"
  availableKids :: "string list"
  keyCount :: nat

definition getKeyStoreState :: "key_store \<Rightarrow> key_store_state" where
  "getKeyStoreState ks =
     \<lparr>state_activeKid = activeKid ks,
      availableKids = object_keys (keys ks),
      keyCount = length (object_keys (keys ks))\<rparr>"


section \<open>The Node.js \<open>crypto\<close> module\<close>

text \<open>
  Key parsing is outside the repository. \<open>createPrivateKey\<close> and \<open>createPublicKey\<close> either
  throw or return a key object; here a key object is the number of the key pair it belongs to,
  so that a public key verifies exactly the signatures made with the private key of the same
  pair. \<open>export_jwk\<close> is \<open>key.export({ format: 'jwk' })\<close>, which may throw as well.
\<close>

record jwk =
  jwk_kty :: string
  jwk_n :: "string option"
  jwk_e :: "string option"

record crypto =
  createPrivateKey :: "string \<Rightarrow> nat option"
  createPublicKey :: "string \<Rightarrow> nat option"
  export_jwk :: "nat \<Rightarrow> jwk option"

section \<open>jwksController.js\<close>

record jwks_key =
  jwks_kty :: string
  jwks_use :: string
  jwks_kid :: string
  jwks_alg :: string
  jwks_n :: "string option"
  jwks_e :: "string option"

text \<open>
  One turn of the loop of \<open>generateJWKS\<close>: the entry pushed for \<open>kid\<close>, or nothing when the
  public key is missing or its conversion throws.
\<close>

definition convert_to_jwk :: "crypto \<Rightarrow> string js_object \<Rightarrow> string \<Rightarrow> jwks_key option" where
  "convert_to_jwk c allPublicKeys kid =
     (case obj_get allPublicKeys kid of
        None \<Rightarrow> None
      | Some public \<Rightarrow>
          if public = [] then None
          else (case createPublicKey c public of
                  None \<Rightarrow> None
                | Some key \<Rightarrow>
                    (case export_jwk c key of
                       None \<Rightarrow> None
                     | Some j \<Rightarrow>
                         Some \<lparr>jwks_kty = jwk_kty j, jwks_use = ''sig'', jwks_kid = kid,
                               jwks_alg = ''RS256'', jwks_n = jwk_n j, jwks_e = jwk_e j\<rparr>)))"

fun jwks_loop :: "crypto \<Rightarrow> string js_object \<Rightarrow> string list \<Rightarrow> jwks_key list \<Rightarrow> jwks_key list" where
  "jwks_loop c allPublicKeys [] jwksKeys = jwksKeys"
| "jwks_loop c allPublicKeys (kid # kids) jwksKeys =
     (case convert_to_jwk c allPublicKeys kid of
        None \<Rightarrow> jwks_loop c allPublicKeys kids jwksKeys
      | Some k \<Rightarrow> jwks_loop c allPublicKeys kids (jwksKeys @ [k]))"

text \<open>The value of \<open>generateJWKS\<close> is the \<open>keys\<close> array of the document \<open>{ keys: [...] }\<close>.\<close>

definition generateJWKS :: "crypto \<Rightarrow> key_store \<Rightarrow> jwks_key list" where
  "generateJWKS c ks =
     (let allPublicKeys = getAllPublicKeys ks; allKids = getAllKids ks in
      if length allKids = 0 then [] else jwks_loop c allPublicKeys allKids [])"

text \<open>The process state: the key store of keyManager and the cache of jwksController.\<close>

record app_state =
  keyStore :: key_store
  jwksCache :: "jwks_key list"

definition refreshJWKS :: "crypto \<Rightarrow> app_state \<Rightarrow> app_state" where
  "refreshJWKS c st = st\<lparr>jwksCache := generateJWKS c (keyStore st)\<rparr>"

section \<open>keyRotationService.js\<close>

record rotation_result =
  oldActiveKid :: "string option"
  newActiveKid :: string
  totalKeys :: nat

text \<open>
  \<open>rotateToNewKey\<close>. \<open>month\<close> is \<open>new Date().toISOString().slice(0, 7)\<close>, the current year and
  month. The message of the error thrown by \<open>crypto\<close> is not modelled.
\<close>

definition rotateToNewKey ::
  "environment \<Rightarrow> crypto \<Rightarrow> string \<Rightarrow> app_state \<Rightarrow> app_state \<times> (js_error + rotation_result)" where
  "rotateToNewKey env c month st =
     (let newPrivateKey = env ''JWT_PRIVATE_KEY_NEW'';
          newPublicKey = env ''JWT_PUBLIC_KEY_NEW'';
          newKid = or_default (env ''JWT_NEW_KID'') (''auth-key-'' @ month)
      in
      if \<not> truthy newPrivateKey \<or> \<not> truthy newPublicKey
      then (st, Inl (Error ''JWT_PRIVATE_KEY_NEW and JWT_PUBLIC_KEY_NEW must be set for key rotation''))
      else if createPrivateKey c (or_default newPrivateKey []) = None
      then (st, Inl (Error ''Invalid key format''))
      else if createPublicKey c (or_default newPublicKey []) = None
      then (st, Inl (Error ''Invalid key format''))
      else
        (let old = getActiveKid (keyStore st);
             (ks1, added) =
               addKey newKid (or_default newPrivateKey []) (or_default newPublicKey []) False
                 (keyStore st)
         in case added of
              Inl err \<Rightarrow> (st\<lparr>keyStore := ks1\<rparr>, Inl err)
            | Inr _ \<Rightarrow>
                (let (ks2, activated) = setActiveKid newKid ks1
                 in case activated of
                      Inl err \<Rightarrow> (st\<lparr>keyStore := ks2\<rparr>, Inl err)
                    | Inr _ \<Rightarrow>
                        (let st2 = refreshJWKS c (st\<lparr>keyStore := ks2\<rparr>);
                             state = getKeyStoreState (keyStore st2)
                         in (st2, Inr \<lparr>oldActiveKid = old, newActiveKid = newKid,
                                       totalKeys = keyCount state\<rparr>)))))"

datatype purge_result =
  NoKeysToPurge
| Purged (purged: "string list") (purge_activeKid: "string option") (remainingKeys: "string list")

text \<open>The loop \<open>for (const kid of keysToRemove) keyManager.removeKey(kid)\<close>.\<close>

fun remove_keys :: "string list \<Rightarrow> key_store \<Rightarrow> key_store" where
  "remove_keys [] ks = ks"
| "remove_keys (kid # kids) ks = remove_keys kids (fst (removeKey kid ks))"

text \<open>
  \<open>purgeExpiredKeys\<close>. \<open>kidsToPurge\<close> is \<open>None\<close> when the argument is missing or not an array,
  and the array of key ids (\<open>string[]\<close>) otherwise. \<open>minAgeMinutes\<close> is not read by the body.
\<close>

definition purgeExpiredKeys ::
  "crypto \<Rightarrow> string list option \<Rightarrow> nat \<Rightarrow> app_state \<Rightarrow> app_state \<times> purge_result" where
  "purgeExpiredKeys c kidsToPurge minAgeMinutes st =
     (let active = getActiveKid (keyStore st);
          allKids = getAllKids (keyStore st);
          keysToRemove =
            (case kidsToPurge of
               Some kids \<Rightarrow> filter (\<lambda>kid. Some kid \<noteq> active) kids
             | None \<Rightarrow> filter (\<lambda>kid. Some kid \<noteq> active) allKids)
      in
      if length keysToRemove = 0 then (st, NoKeysToPurge)
      else
        (let st1 = st\<lparr>keyStore := remove_keys keysToRemove (keyStore st)\<rparr>;
             st2 = refreshJWKS c st1
         in (st2, Purged keysToRemove active (getAllKids (keyStore st2)))))"

definition getRotationStatus :: "app_state \<Rightarrow> key_store_state" where
  "getRotationStatus st = getKeyStoreState (keyStore st)"

section \<open>The jsonwebtoken library\<close>

text \<open>
  The payload the service signs and reads back. \<open>None\<close> stands for a field that is
  \<open>undefined\<close> (left out of the token), and for \<open>exp\<close> also for \<open>NaN\<close>, which the token
  carries as \<open>null\<close>.
\<close>

record jwt_payload =
  sub :: "string option"
  email :: "string option"
  organization_id :: "string option"
  roles :: "string list option"
  iat :: int
  exp :: "int option"
  iss :: string
  aud :: string

record sign_options =
  algorithm :: string
  keyid :: string

record verify_options =
  algorithms :: "string list"
  issuer :: string
  audience :: string

text \<open>
  The library is outside the repository, so the code that calls it takes it as a parameter:
  \<open>jwt_sign\<close> is \<open>jwt.sign(payload, key, options)\<close>, \<open>jwt_decode_kid\<close> is the \<open>header.kid\<close> of
  \<open>jwt.decode(token, { complete: true })\<close> (\<open>None\<close> when the token does not decode or has no
  such header), \<open>jwt_decode\<close> is \<open>jwt.decode(token)\<close> and \<open>jwt_verify\<close> is
  \<open>jwt.verify(token, key, options)\<close>, whose key is \<open>None\<close> when \<open>undefined\<close>.
\<close>

record 'tok jsonwebtoken =
  jwt_sign :: "jwt_payload \<Rightarrow> string \<Rightarrow> sign_options \<Rightarrow> js_error + 'tok"
  jwt_decode_kid :: "'tok \<Rightarrow> string option"
  jwt_decode :: "'tok \<Rightarrow> jwt_payload option"
  jwt_verify :: "'tok \<Rightarrow> string option \<Rightarrow> verify_options \<Rightarrow> js_error + jwt_payload"

text \<open>
  A symbolic instance of the library for RS256: a token records its header, its payload and
  the key pair whose private key signed it; a public key accepts the signatures of its own pair
  only. \<open>jwt.verify\<close> checks, in this order, the key, the algorithm, the signature, the expiry
  against the clock \<open>now\<close> (in seconds), the audience and the issuer.
\<close>

datatype token =
  Token (header_alg: string) (header_kid: "string option") (token_payload: jwt_payload)
    (signed_by: nat)

definition symbolic_sign :: "crypto \<Rightarrow> jwt_payload \<Rightarrow> string \<Rightarrow> sign_options \<Rightarrow> js_error + token" where
  "symbolic_sign c payload key options =
     (case createPrivateKey c key of
        None \<Rightarrow> Inl (Error ''secretOrPrivateKey must be an asymmetric key when using RS256'')
      | Some pair \<Rightarrow> Inr (Token (algorithm options) (Some (keyid options)) payload pair))"

definition symbolic_verify ::
  "crypto \<Rightarrow> int \<Rightarrow> token \<Rightarrow> string option \<Rightarrow> verify_options \<Rightarrow> js_error + jwt_payload" where
  "symbolic_verify c now tok key options =
     (if \<not> truthy key then Inl (JsonWebTokenError ''secret or public key must be provided'')
      else if header_alg tok \<notin> set (algorithms options)
      then Inl (JsonWebTokenError ''invalid algorithm'')
      else if createPublicKey c (or_default key []) \<noteq> Some (signed_by tok)
      then Inl (JsonWebTokenError ''invalid signature'')
      else (case exp (token_payload tok) of
              None \<Rightarrow> Inl (JsonWebTokenError ''invalid exp value'')
            | Some expiry \<Rightarrow>
                if now \<ge> expiry then Inl (TokenExpiredError ''jwt expired'')
                else if aud (token_payload tok) \<noteq> audience options
                then Inl (JsonWebTokenError ''jwt audience invalid'')
                else if iss (token_payload tok) \<noteq> issuer options
                then Inl (JsonWebTokenError ''jwt issuer invalid'')
                else Inr (token_payload tok)))"

definition symbolic_jwt :: "crypto \<Rightarrow> int \<Rightarrow> token jsonwebtoken" where
  "symbolic_jwt c now =
     \<lparr>jwt_sign = symbolic_sign c,
      jwt_decode_kid = header_kid,
      jwt_decode = (\<lambda>tok. Some (token_payload tok)),
      jwt_verify = symbolic_verify c now\<rparr>"

section \<open>jwtService.js\<close>

text \<open>
  \<open>parseInt(s, 10)\<close>: leading white space, an optional sign, then the longest run of digits;
  \<open>NaN\<close> (\<open>None\<close>) when there is no digit. The result is the exact integer; the rounding of
  numbers beyond \<open>2^53\<close> is not modelled.
\<close>

definition is_js_space :: "char \<Rightarrow> bool" where
  "is_js_space c = (of_char c \<in> {9, 10, 11, 12, 13, 32, 160 :: nat})"

definition parseInt :: "string \<Rightarrow> int option" where
  "parseInt s =
     (let t = dropWhile is_js_space s;
          negative = (case t of c # _ \<Rightarrow> c = CHR ''-'' | [] \<Rightarrow> False);
          unsigned = (case t of c # r \<Rightarrow> if c = CHR ''-'' \<or> c = CHR ''+'' then r else t | [] \<Rightarrow> t);
          digits = takeWhile is_digit unsigned
      in if digits = [] then None
         else Some (if negative then - int (decimal_value digits) else int (decimal_value digits)))"

record token_claims =
  claims_sub :: "string option"
  claims_email :: "string option"
  claims_organization_id :: "string option"
  claims_roles :: "string list option"

text \<open>\<open>generateToken\<close>. \<open>now\<close> is \<open>Math.floor(Date.now() / 1000)\<close>.\<close>

definition generateToken ::
  "'tok jsonwebtoken \<Rightarrow> environment \<Rightarrow> int \<Rightarrow> key_store \<Rightarrow> token_claims \<Rightarrow> js_error + 'tok" where
  "generateToken jwt env now ks claims =
     (let private = getActivePrivateKey ks;
          active = getActiveKid ks
      in
      if \<not> truthy private then Inl (Error ''JWT private key not configured'')
      else if \<not> truthy active then Inl (Error ''JWT active key ID not configured'')
      else
        (let expiryMinutes = parseInt (or_default (env ''JWT_EXPIRY_MINUTES'') ''15'');
             payload =
               \<lparr>sub = claims_sub claims,
                email = claims_email claims,
                organization_id = claims_organization_id claims,
                roles = Some (case claims_roles claims of Some r \<Rightarrow> r | None \<Rightarrow> []),
                iat = now,
                exp = (case expiryMinutes of Some m \<Rightarrow> Some (now + m * 60) | None \<Rightarrow> None),
                iss = or_default (env ''JWT_ISSUER'') ''auth-microservice'',
                aud = or_default (env ''JWT_AUDIENCE'') ''educore-ai''\<rparr>
         in jwt_sign jwt payload (or_default private [])
              \<lparr>algorithm = ''RS256'', keyid = or_default active []\<rparr>))"

section \<open>validateJWT.js\<close>








section \<open>HTTP responses and cookies\<close>

datatype json =
  JNull | JBool bool | JNum int | JStr string | JArr "json list" | JObj "(string \<times> json) list"

text \<open>
  A response is its status, what \<open>res.json\<close>, \<open>res.send\<close> or \<open>res.redirect\<close> sends, and the
  \<open>Set-Cookie\<close> headers in the order \<open>res.cookie\<close> and \<open>res.clearCookie\<close> add them. The
  attributes of the cookies (\<open>httpOnly\<close>, \<open>secure\<close>, \<open>sameSite\<close>, \<open>path\<close>, \<open>maxAge\<close>) are
  not modelled: every cookie of the service is set and cleared on the path \<open>/\<close>.
\<close>

datatype 'tok cookie_value = Text string | AccessToken 'tok

datatype 'tok cookie_op = SetCookie string "'tok cookie_value" | ClearCookie string

datatype response_body = Json json | Redirect string

record 'tok http_response =
  res_status :: nat
  res_body :: response_body
  res_cookies :: "'tok cookie_op list"

text \<open>The cookies the user agent holds once it has processed the headers of a response.\<close>

type_synonym 'tok cookie_jar = "string \<Rightarrow> 'tok cookie_value option"

fun apply_cookie :: "'tok cookie_jar \<Rightarrow> 'tok cookie_op \<Rightarrow> 'tok cookie_jar" where
  "apply_cookie jar (SetCookie name v) = jar(name \<mapsto> v)"
| "apply_cookie jar (ClearCookie name) = jar(name := None)"

definition apply_cookies :: "'tok cookie_op list \<Rightarrow> 'tok cookie_jar \<Rightarrow> 'tok cookie_jar" where
  "apply_cookies ops jar = foldl apply_cookie jar ops"

text \<open>The outcome of an awaited call: it throws, or it returns.\<close>

datatype 'a outcome = Throws js_error | Returns 'a

section \<open>auditService.js\<close>

record audit_record =
  rec_user_id :: "string option"
  rec_email :: "string option"
  rec_provider :: string
  rec_company_id :: "string option"
  login_at :: int
  logout_at :: "int option"

text \<open>
  The collection \<open>audit_logs\<close>: \<open>connected\<close> says that \<open>db\<close> is set, \<open>failing\<close> that the
  operations of the driver throw.
\<close>

record audit_db =
  connected :: bool
  failing :: bool
  records :: "audit_record list"

text \<open>
  The \<open>try\<close> block of \<open>logLogin\<close> and the function itself, whose \<open>catch\<close> logs the error and
  returns: the promise of \<open>logLogin\<close> is resolved (\<open>Inr\<close>) or rejected (\<open>Inl\<close>).
\<close>

definition insert_login ::
  "audit_db \<Rightarrow> string option \<Rightarrow> string option \<Rightarrow> string option \<Rightarrow> string \<Rightarrow> int \<Rightarrow>
   js_error + audit_db" where
  "insert_login db uid mail org provider now =
     (if \<not> connected db then Inr db
      else if failing db then Inl (Error ''insertOne failed'')
      else Inr (db\<lparr>records := records db @
              [\<lparr>rec_user_id = uid, rec_email = mail, rec_provider = provider,
                rec_company_id = org, login_at = now, logout_at = None\<rparr>]\<rparr>))"

definition logLogin ::
  "audit_db \<Rightarrow> string option \<Rightarrow> string option \<Rightarrow> string option \<Rightarrow> string \<Rightarrow> int \<Rightarrow>
   audit_db \<times> (js_error + unit)" where
  "logLogin db uid mail org provider now =
     (case insert_login db uid mail org provider now of
        Inl err \<Rightarrow> (db, Inr ())
      | Inr db' \<Rightarrow> (db', Inr ()))"

text \<open>\<open>findOne\<close> with \<open>sort: { login_at: -1 }\<close>: the position of the latest login of the user.\<close>

fun latest_login :: "audit_record list \<Rightarrow> string option \<Rightarrow> nat \<Rightarrow> (nat \<times> int) option \<Rightarrow> nat option" where
  "latest_login [] uid i best = map_option fst best"
| "latest_login (r # rs) uid i best =
     latest_login rs uid (Suc i)
       (if rec_user_id r = uid \<and> (case best of None \<Rightarrow> True | Some (_, t) \<Rightarrow> t < login_at r)
        then Some (i, login_at r) else best)"

definition set_logout :: "audit_db \<Rightarrow> string option \<Rightarrow> int \<Rightarrow> js_error + audit_db" where
  "set_logout db uid now =
     (if \<not> connected db then Inr db
      else if \<not> truthy uid then Inr db
      else if failing db then Inl (Error ''findOne failed'')
      else (case latest_login (records db) uid 0 None of
              None \<Rightarrow> Inr db
            | Some i \<Rightarrow>
                Inr (db\<lparr>records := (records db)[i := (records db ! i)\<lparr>logout_at := Some now\<rparr>]\<rparr>)))"

definition updateLogoutTimestamp :: "audit_db \<Rightarrow> string option \<Rightarrow> int \<Rightarrow> audit_db \<times> (js_error + unit)" where
  "updateLogoutTimestamp db uid now =
     (case set_logout db uid now of
        Inl err \<Rightarrow> (db, Inr ())
      | Inr db' \<Rightarrow> (db', Inr ()))"

section \<open>coordinatorService.js\<close>

record directory_user =
  dir_user_id :: "string option"
  dir_organization_id :: "string option"
  dir_roles :: "string list option"

text \<open>
  The answer of the Coordinator to the \<open>get-user\<close> request: the data of the response, or the
  error of \<open>axios\<close> with its \<open>code\<close> and, when there was a response, its status.
\<close>

datatype coordinator_reply =
  Replied "directory_user option"
| Refused (error_code: string) (response_status: "nat option")

definition getUserByEmail :: "environment \<Rightarrow> coordinator_reply \<Rightarrow> directory_user option outcome" where
  "getUserByEmail env reply =
     (if env ''COORDINATOR_MOCK_MODE'' = Some ''true''
      then Returns (Some \<lparr>dir_user_id = Some ''dummy-user-123'',
                          dir_organization_id = Some ''dummy-org-1'',
                          dir_roles = Some [''user'']\<rparr>)
      else
        (case reply of
           Replied data \<Rightarrow>
             (case data of
                None \<Rightarrow> Returns None
              | Some u \<Rightarrow>
                  if truthy (dir_user_id u)
                  then Returns (Some (u\<lparr>dir_roles :=
                         Some (case dir_roles u of Some r \<Rightarrow> r | None \<Rightarrow> [])\<rparr>))
                  else Returns None)
         | Refused code st \<Rightarrow>
             if code = ''ECONNREFUSED'' \<or> (case st of Some s \<Rightarrow> s \<ge> 500 | None \<Rightarrow> False)
             then Returns None
             else if st = Some 404 \<or> st = Some 403 then Returns None
             else Throws (Error ''Request failed'')))"

section \<open>authController.js\<close>

text \<open>
  A query parameter parsed by Express is a string, or an array or object when the query repeats
  or nests the name; the latter is truthy, has no \<open>substring\<close>, and is given by its conversion
  to a string.
\<close>

datatype query_value = QString string | QOther string

definition query_truthy :: "query_value option \<Rightarrow> bool" where
  "query_truthy v = (case v of None \<Rightarrow> False | Some (QString s) \<Rightarrow> s \<noteq> [] | Some (QOther _) \<Rightarrow> True)"

fun query_text :: "query_value \<Rightarrow> string" where
  "query_text (QString s) = s"
| "query_text (QOther s) = s"

record callback_request =
  req_provider :: string
  req_code :: "query_value option"
  req_state :: "query_value option"
  req_error :: "query_value option"
  req_cookies :: "string \<Rightarrow> string option"

text \<open>
  What the callback finds outside the process: which OAuth clients \<open>oauthClients\<close> holds, and
  the outcome of each awaited call. For GitHub, the \<open>access_token\<close> of the token response, the
  \<open>email\<close> of \<open>/user\<close> and the entries (\<open>email\<close>, \<open>primary\<close>) of \<open>/user/emails\<close>; for LinkedIn the
  \<open>access_token\<close> and the \<open>email\<close> of \<open>/v2/userinfo\<close>; for the OpenID Connect client the outcome
  of \<open>client.callback\<close> and the \<open>email\<close> and \<open>emailAddress\<close> of \<open>client.userinfo\<close>; the reply of the
  Coordinator; \<open>encodeURIComponent\<close>; and the \<open>hostname\<close> of \<open>new URL(s)\<close>, \<open>None\<close> when it throws.
\<close>

record oauth_world =
  oauthClients :: "string \<Rightarrow> bool"
  github_token :: "string option outcome"
  github_user_email :: "string option outcome"
  github_emails :: "(string option \<times> bool) list outcome"
  linkedin_token :: "string option outcome"
  linkedin_email :: "string option outcome"
  oidc_callback :: "unit outcome"
  oidc_userinfo :: "(string option \<times> string option) outcome"
  coordinator :: coordinator_reply
  encodeURIComponent :: "string \<Rightarrow> string"
  url_hostname :: "string \<Rightarrow> string option"

definition state_cookie :: "string \<Rightarrow> string" where
  "state_cookie provider = ''oauth_'' @ provider @ ''_state''"

definition code_verifier_cookie :: "string \<Rightarrow> string" where
  "code_verifier_cookie provider = ''oauth_'' @ provider @ ''_code_verifier''"

definition clear_oauth_cookies :: "string \<Rightarrow> 'tok cookie_op list" where
  "clear_oauth_cookies provider =
     [ClearCookie (state_cookie provider), ClearCookie (code_verifier_cookie provider)]"

definition json_error :: "string \<Rightarrow> response_body" where
  "json_error msg = Json (JObj [(''error'', JStr msg)])"

definition frontend_url :: "environment \<Rightarrow> string" where
  "frontend_url env = or_default (env ''FRONTEND_URL'') ''http://localhost:5173''"

text \<open>
  \<open>initiateOAuth\<close>, given the values of \<open>generators.state()\<close> and \<open>generators.codeVerifier()\<close>
  and the authorization URL it builds, or the error building it throws.
\<close>

definition initiateOAuth ::
  "oauth_world \<Rightarrow> string \<Rightarrow> string \<Rightarrow> string \<Rightarrow> string outcome \<Rightarrow> 'tok http_response" where
  "initiateOAuth w provider new_state codeVerifier authUrl =
     (if provider \<notin> set [''google'', ''github'', ''linkedin'']
      then \<lparr>res_status = 400, res_body = json_error ''Invalid provider'', res_cookies = []\<rparr>
      else if \<not> oauthClients w provider
      then \<lparr>res_status = 500,
            res_body = Json (JObj [(''error'', JStr ''OAuth provider not configured''),
                                   (''provider'', JStr provider),
                                   (''hint'', JStr ''Check backend logs for initialization errors'')]),
            res_cookies = []\<rparr>
      else
        (let cookies = [SetCookie (state_cookie provider) (Text new_state),
                        SetCookie (code_verifier_cookie provider) (Text codeVerifier)]
         in case authUrl of
              Throws err \<Rightarrow>
                \<lparr>res_status = 500, res_body = json_error ''Failed to initiate OAuth flow'',
                 res_cookies = cookies\<rparr>
            | Returns url \<Rightarrow>
                \<lparr>res_status = 302, res_body = Redirect url, res_cookies = cookies\<rparr>))"

text \<open>
  The part of the \<open>try\<close> block of \<open>handleCallback\<close> that exchanges the code and fetches the
  identity: it throws, it answers the request itself, or it yields the email.
\<close>

datatype 'tok identity =
  IdentityThrows js_error
| IdentityAnswered "'tok cookie_op list" nat response_body
| IdentityEmail "string option"

definition js_or :: "string option \<Rightarrow> string option \<Rightarrow> string option" where
  "js_or a b = (if truthy a then a else b)"

definition github_identity :: "oauth_world \<Rightarrow> string \<Rightarrow> 'tok identity" where
  "github_identity w provider =
     (case github_token w of
        Throws err \<Rightarrow> IdentityThrows err
      | Returns accessToken \<Rightarrow>
          if \<not> truthy accessToken
          then IdentityAnswered (clear_oauth_cookies provider) 400
                 (json_error ''Failed to obtain access token from GitHub'')
          else
            (case github_user_email w of
               Throws err \<Rightarrow> IdentityThrows err
             | Returns userEmail \<Rightarrow>
                 (case github_emails w of
                    Throws err \<Rightarrow> IdentityThrows err
                  | Returns emails \<Rightarrow>
                      (let primaryEmail =
                             (case List.find snd emails of
                                Some entry \<Rightarrow> Some entry
                              | None \<Rightarrow> (case emails of [] \<Rightarrow> None | entry # _ \<Rightarrow> Some entry))
                       in IdentityEmail
                            (js_or (case primaryEmail of Some (mail, _) \<Rightarrow> mail | None \<Rightarrow> None)
                               userEmail)))))"

definition linkedin_identity :: "oauth_world \<Rightarrow> string \<Rightarrow> 'tok identity" where
  "linkedin_identity w provider =
     (case linkedin_token w of
        Throws err \<Rightarrow> IdentityThrows err
      | Returns accessToken \<Rightarrow>
          if \<not> truthy accessToken
          then IdentityAnswered (clear_oauth_cookies provider) 400
                 (json_error ''Failed to obtain access token from LinkedIn'')
          else
            (case linkedin_email w of
               Throws err \<Rightarrow> IdentityThrows err
             | Returns mail \<Rightarrow> IdentityEmail mail))"

definition oidc_identity :: "oauth_world \<Rightarrow> string \<Rightarrow> 'tok identity" where
  "oidc_identity w provider =
     (if \<not> oauthClients w provider
      then IdentityAnswered [] 500 (json_error ''OAuth provider not configured'')
      else
        (case oidc_callback w of
           Throws err \<Rightarrow> IdentityThrows err
         | Returns _ \<Rightarrow>
             (case oidc_userinfo w of
                Throws err \<Rightarrow> IdentityThrows err
              | Returns (mail, emailAddress) \<Rightarrow> IdentityEmail (js_or mail emailAddress))))"

definition fetch_identity :: "oauth_world \<Rightarrow> string \<Rightarrow> 'tok identity" where
  "fetch_identity w provider =
     (if provider = ''github'' then github_identity w provider
      else if provider = ''linkedin'' then linkedin_identity w provider
      else oidc_identity w provider)"

text \<open>
  The \<open>try\<close> block gives the cookies written so far and either the error thrown or the status
  and body sent. \<open>complete_login\<close> is its part after the email is known.
\<close>

type_synonym 'tok attempt = "'tok cookie_op list \<times> (js_error + nat \<times> response_body)"

definition not_provisioned_message :: string where
  "not_provisioned_message =
     ''Account not provisioned '' @ [CHR 0xE2, CHR 0x80, CHR 0x94] @ '' contact administrator''"

definition complete_login ::
  "'tok jsonwebtoken \<Rightarrow> environment \<Rightarrow> int \<Rightarrow> key_store \<Rightarrow> oauth_world \<Rightarrow> string \<Rightarrow> string \<Rightarrow>
   audit_db \<Rightarrow> 'tok attempt \<times> audit_db" where
  "complete_login jwt env now ks w provider mail db =
     (case getUserByEmail env (coordinator w) of
        Throws err \<Rightarrow> (([], Inl err), db)
      | Returns directoryResponse \<Rightarrow>
          (case (case directoryResponse of
                   None \<Rightarrow> None
                 | Some u \<Rightarrow> if truthy (dir_user_id u) then Some u else None) of
             None \<Rightarrow>
               ((clear_oauth_cookies provider,
                 Inr (302, Redirect (frontend_url env @ ''/?error='' @
                        encodeURIComponent w not_provisioned_message))), db)
           | Some u \<Rightarrow>
               (case generateToken jwt env now ks
                       \<lparr>claims_sub = dir_user_id u, claims_email = Some mail,
                        claims_organization_id = dir_organization_id u,
                        claims_roles = Some (case dir_roles u of Some r \<Rightarrow> r | None \<Rightarrow> [])\<rparr> of
                  Inl err \<Rightarrow> (([], Inl err), db)
                | Inr tok \<Rightarrow>
                    (let cookies =
                           [SetCookie ''access_token'' (AccessToken tok),
                            ClearCookie (state_cookie provider)]
                           @ (if provider \<noteq> ''github'' \<and> provider \<noteq> ''linkedin''
                              then [ClearCookie (code_verifier_cookie provider)] else []);
                         (db', logged) =
                           logLogin db (dir_user_id u) (Some mail) (dir_organization_id u)
                             provider now
                     in case logged of
                          Inl err \<Rightarrow> ((cookies, Inl err), db')
                        | Inr _ \<Rightarrow>
                            (case url_hostname w (frontend_url env) of
                               None \<Rightarrow> ((cookies, Inl (TypeError ''Invalid URL'')), db')
                             | Some _ \<Rightarrow>
                                 ((cookies, Inr (302, Redirect (frontend_url env @ ''/auth/success''))),
                                  db'))))))"

definition callback_attempt ::
  "'tok jsonwebtoken \<Rightarrow> environment \<Rightarrow> int \<Rightarrow> key_store \<Rightarrow> oauth_world \<Rightarrow> callback_request \<Rightarrow>
   audit_db \<Rightarrow> 'tok attempt \<times> audit_db" where
  "callback_attempt jwt env now ks w req db =
     (let provider = req_provider req in
      if query_truthy (req_error req)
      then (([], Inr (302, Redirect (frontend_url env @ ''/?error='' @
                encodeURIComponent w (''OAuth error: '' @
                  (case req_error req of Some v \<Rightarrow> query_text v | None \<Rightarrow> []))))), db)
      else if \<not> query_truthy (req_code req) \<or> \<not> query_truthy (req_state req)
      then (([], Inr (400, json_error ''Missing OAuth parameters'')), db)
      else
        (case req_state req of
           Some (QString received) \<Rightarrow>
             (let storedState = req_cookies req (state_cookie provider) in
              if \<not> truthy storedState
              then ((clear_oauth_cookies provider,
                     Inr (400, Json (JObj
                       [(''error'', JStr ''State cookie not found. Please try logging in again.''),
                        (''hint'', JStr ''This usually happens if cookies are blocked or SameSite is too strict'')]))),
                    db)
              else if Some received \<noteq> storedState
              then ((clear_oauth_cookies provider, Inr (400, json_error ''Invalid state parameter'')), db)
              else
                (case req_code req of
                   Some (QString _) \<Rightarrow>
                     (case fetch_identity w provider of
                        IdentityThrows err \<Rightarrow> (([], Inl err), db)
                      | IdentityAnswered cookies st answer \<Rightarrow> ((cookies, Inr (st, answer)), db)
                      | IdentityEmail mail \<Rightarrow>
                          if \<not> truthy mail
                          then ((clear_oauth_cookies provider,
                                 Inr (400, json_error ''Email not provided by OAuth provider'')), db)
                          else complete_login jwt env now ks w provider (or_default mail []) db)
                 | _ \<Rightarrow> (([], Inl (TypeError ''code.substring is not a function'')), db)))
         | _ \<Rightarrow> (([], Inl (TypeError ''state.substring is not a function'')), db)))"

text \<open>\<open>handleCallback\<close>: the \<open>try\<close> block and the \<open>catch\<close> block.\<close>

definition handleCallback ::
  "'tok jsonwebtoken \<Rightarrow> environment \<Rightarrow> int \<Rightarrow> key_store \<Rightarrow> oauth_world \<Rightarrow> callback_request \<Rightarrow>
   audit_db \<Rightarrow> 'tok http_response \<times> audit_db" where
  "handleCallback jwt env now ks w req db =
     (case callback_attempt jwt env now ks w req db of
        ((cookies, Inr (st, answer)), db') \<Rightarrow>
          (\<lparr>res_status = st, res_body = answer, res_cookies = cookies\<rparr>, db')
      | ((cookies, Inl err), db') \<Rightarrow>
          (\<lparr>res_status = 500, res_body = json_error ''Authentication failed'',
            res_cookies = cookies @ clear_oauth_cookies (req_provider req)\<rparr>, db'))"

text \<open>\<open>logout\<close>: the \<open>try\<close> block, whose only awaited call is the audit update, and the \<open>catch\<close>.\<close>

definition logout ::
  "'tok jsonwebtoken \<Rightarrow> int \<Rightarrow> 'tok option \<Rightarrow> audit_db \<Rightarrow> 'tok http_response \<times> audit_db" where
  "logout jwt now cookie db =
     (let userInfo =
            (case cookie of
               None \<Rightarrow> None
             | Some tok \<Rightarrow>
                 (case jwt_decode jwt tok of
                    None \<Rightarrow> None
                  | Some decoded \<Rightarrow> Some (sub decoded, email decoded, organization_id decoded)));
          cookies = [ClearCookie ''access_token''];
          (db', updated) =
            (case userInfo of
               Some (uid, _, _) \<Rightarrow> updateLogoutTimestamp db uid now
             | None \<Rightarrow> (db, Inr ()))
      in case updated of
           Inl err \<Rightarrow>
             (\<lparr>res_status = 500, res_body = json_error ''Logout failed'', res_cookies = cookies\<rparr>, db')
         | Inr _ \<Rightarrow>
             (\<lparr>res_status = 200,
               res_body = Json (JObj [(''message'', JStr ''Logged out successfully'')]),
               res_cookies = cookies\<rparr>, db'))"

section \<open>coordinatorController.js\<close>

text \<open>
  The request body, the payload and the response template are JSON values. A property read is
  \<open>undefined\<close> (\<open>None\<close>) on a value that has no such own property and throws on \<open>null\<close>.
  Numbers are integers here; the handlers never compute with them.
\<close>

fun json_truthy :: "json \<Rightarrow> bool" where
  "json_truthy JNull = False"
| "json_truthy (JBool b) = b"
| "json_truthy (JNum i) = (i \<noteq> 0)"
| "json_truthy (JStr s) = (s \<noteq> [])"
| "json_truthy (JArr _) = True"
| "json_truthy (JObj _) = True"

fun js_get :: "json \<Rightarrow> string \<Rightarrow> js_error + json option" where
  "js_get JNull name = Inl (TypeError (''Cannot read properties of null (reading '' @ name @ '')''))"
| "js_get (JObj props) name = Inr (obj_get props name)"
| "js_get _ name = Inr None"

fun error_message :: "js_error \<Rightarrow> string" where
  "error_message (Error msg) = msg"
| "error_message (TypeError msg) = msg"
| "error_message (JsonWebTokenError msg) = msg"
| "error_message (TokenExpiredError msg) = msg"
| "error_message (NotBeforeError msg) = msg"

text \<open>\<open>x || {}\<close> on a property that may be undefined.\<close>

definition or_empty_object :: "json option \<Rightarrow> json" where
  "or_empty_object v = (case v of None \<Rightarrow> JObj [] | Some j \<Rightarrow> if json_truthy j then j else JObj [])"

text \<open>
  \<open>if (response.f !== undefined) response.f = v\<close>, as seen in \<open>JSON.stringify(response)\<close>. On an
  object the property is written when the object has it. A template that is an array or a
  primitive value is serialised as it was: a property written on an array is not an element, and
  a primitive has no property.
\<close>

fun assign_if_defined :: "string \<Rightarrow> json \<Rightarrow> json \<Rightarrow> json" where
  "assign_if_defined name v (JObj props) =
     (if obj_get props name \<noteq> None then JObj (obj_set props name v) else JObj props)"
| "assign_if_defined name v response = response"

definition jwks_key_json :: "jwks_key \<Rightarrow> json" where
  "jwks_key_json k =
     JObj ([(''kty'', JStr (jwks_kty k)), (''use'', JStr (jwks_use k)), (''kid'', JStr (jwks_kid k)),
            (''alg'', JStr (jwks_alg k))]
           @ (case jwks_n k of Some v \<Rightarrow> [(''n'', JStr v)] | None \<Rightarrow> [])
           @ (case jwks_e k of Some v \<Rightarrow> [(''e'', JStr v)] | None \<Rightarrow> []))"

text \<open>\<open>handleGetJwks\<close>: no statement of its \<open>try\<close> block throws.\<close>

definition handleGetJwks :: "crypto \<Rightarrow> key_store \<Rightarrow> json \<Rightarrow> json" where
  "handleGetJwks c ks response =
     (let jwksKeys = jwks_loop c (getAllPublicKeys ks) (getAllKids ks) [];
          jwks = JObj [(''keys'', JArr (map jwks_key_json jwksKeys))];
          response1 = assign_if_defined ''jwks'' jwks response
      in assign_if_defined ''keys'' (JArr (map jwks_key_json jwksKeys)) response1)"

text \<open>
  \<open>handlePerformLogout\<close>. The notification of the frontend is fired and forgotten and does not
  touch the response. A \<open>user_id\<close> that is not a string matches no audit record.
\<close>

definition handlePerformLogout :: "json \<Rightarrow> json \<Rightarrow> audit_db \<Rightarrow> int \<Rightarrow> json \<times> audit_db" where
  "handlePerformLogout payload response db now =
     (let uid = (case js_get payload ''user_id'' of Inr (Some (JStr s)) \<Rightarrow> Some s | _ \<Rightarrow> None);
          (db', updated) = updateLogoutTimestamp db uid now
      in case updated of
           Inr _ \<Rightarrow>
             (assign_if_defined ''status'' (JStr ''success'')
                (assign_if_defined ''message'' (JStr ''Logout completed successfully'') response),
              db')
         | Inl err \<Rightarrow>
             (assign_if_defined ''error''
                (JStr (if error_message err = [] then ''Failed to perform logout''
                       else error_message err))
                (assign_if_defined ''status'' (JStr ''success'')
                   (assign_if_defined ''message'' (JStr ''Logout completed successfully'') response)),
              db'))"

text \<open>
  The body of the request as Express hands it over: a string, a value already parsed (of type
  \<open>object\<close> when it is an object or an array), or nothing.
\<close>

datatype request_body = BodyText string | BodyParsed json | BodyOther

text \<open>
  \<open>handleCoordinatorRequest\<close>, given \<open>JSON.parse\<close> (\<open>None\<close> when it throws) and the conversion of
  a value to a string, which names the handler looked up in \<open>actionHandlers\<close>. The result is
  the status and the document that is stringified and sent.
\<close>

definition parse_body :: "(string \<Rightarrow> json option) \<Rightarrow> request_body \<Rightarrow> json option" where
  "parse_body json_parse body =
     (case body of
        BodyText raw \<Rightarrow> json_parse raw
      | BodyParsed j \<Rightarrow> (case j of JObj _ \<Rightarrow> Some j | JArr _ \<Rightarrow> Some j | _ \<Rightarrow> None)
      | BodyOther \<Rightarrow> None)"

definition response_template :: "json \<Rightarrow> json" where
  "response_template requestBody =
     (case js_get requestBody ''response'' of Inr v \<Rightarrow> or_empty_object v | Inl _ \<Rightarrow> JObj [])"

definition handleCoordinatorRequest ::
  "crypto \<Rightarrow> key_store \<Rightarrow> (string \<Rightarrow> json option) \<Rightarrow> (json \<Rightarrow> string) \<Rightarrow> int \<Rightarrow> request_body \<Rightarrow>
   audit_db \<Rightarrow> (nat \<times> json) \<times> audit_db" where
  "handleCoordinatorRequest c ks json_parse js_string now body db =
     (case parse_body json_parse body of
        None \<Rightarrow> ((400, JObj [(''error'', JStr ''Invalid JSON in request body'')]), db)
      | Some requestBody \<Rightarrow>
          (case js_get requestBody ''payload'' of
             Inl err \<Rightarrow>
               ((500, assign_if_defined ''error''
                        (JStr (if error_message err = [] then ''Internal server error''
                               else error_message err))
                        (response_template requestBody)), db)
           | Inr p \<Rightarrow>
               (let payload = or_empty_object p;
                    response = response_template requestBody;
                    action = (case js_get payload ''action'' of Inr v \<Rightarrow> v | Inl _ \<Rightarrow> None)
                in
                if \<not> (case action of Some a \<Rightarrow> json_truthy a | None \<Rightarrow> False)
                then ((400, assign_if_defined ''error'' (JStr ''No action specified'') response), db)
                else
                  (let name = (case action of
                                 Some (JStr s) \<Rightarrow> s
                               | Some a \<Rightarrow> js_string a
                               | None \<Rightarrow> [])
                   in
                   if name = ''get-jwks'' then ((200, handleGetJwks c ks response), db)
                   else if name = ''perform-logout''
                   then (let (answer, db') = handlePerformLogout payload response db now
                         in ((200, answer), db'))
                   else ((400, assign_if_defined ''error'' (JStr (''Unknown action: '' @ name))
                                 response), db)))))"

section \<open>Properties of the key store\<close>

text \<open>
  Every key id the code stores is a non-empty string with one entry: \<open>loadKeyFromEnv\<close> and
  \<open>initialize\<close> fall back to a default id, and \<open>addKey\<close> rejects an empty one. The states of
  the store are the ones with this property.
\<close>

definition wf_store :: "key_store \<Rightarrow> bool" where
  "wf_store ks = (distinct (map fst (keys ks)) \<and> [] \<notin> set (map fst (keys ks)))"

lemma set_object_entries [simp]: "set (object_entries obj) = set obj"
  by (auto simp: object_entries_def)


lemma obj_get_None_iff: "obj_get obj k = None \<longleftrightarrow> k \<notin> fst ` set obj"
  by (simp add: obj_get_def map_of_eq_None_iff)



lemma removeKey_activeKid [simp]: "activeKid (fst (removeKey kid ks)) = activeKid ks"
  by (simp add: removeKey_def)

lemma remove_keys_activeKid [simp]: "activeKid (remove_keys kids ks) = activeKid ks"
  by (induction kids arbitrary: ks) auto


lemma remove_keys_more: "key_store.more (remove_keys kids ks) = key_store.more ks"
  by (induction kids arbitrary: ks) (auto simp: removeKey_def)



lemma purgeExpiredKeys_store:
  "keyStore (fst (purgeExpiredKeys c kidsToPurge m st)) =
     remove_keys
       (filter (\<lambda>kid. Some kid \<noteq> activeKid (keyStore st))
          (case kidsToPurge of Some kids \<Rightarrow> kids | None \<Rightarrow> getAllKids (keyStore st)))
       (keyStore st)"
  by (cases kidsToPurge)
     (auto simp: purgeExpiredKeys_def Let_def getActiveKid_def refreshJWKS_def)




definition example_crypto :: crypto where
  "example_crypto =
     \<lparr>createPrivateKey = (\<lambda>pem. if pem = ''PRIVATE-A'' then Some 1
                                else if pem = ''PRIVATE-B'' then Some 2
                                else if pem = ''PRIVATE-C'' then Some 3 else None),
      createPublicKey = (\<lambda>pem. if pem = ''PUBLIC-A'' then Some 1
                               else if pem = ''PUBLIC-B'' then Some 2
                               else if pem = ''PUBLIC-C'' then Some 3 else None),
      export_jwk =
        (\<lambda>key. Some \<lparr>jwk_kty = ''RSA'', jwk_n = Some (show_nat key), jwk_e = Some ''AQAB''\<rparr>)\<rparr>"

definition example_state :: app_state where
  "example_state =
     \<lparr>keyStore =
        \<lparr>activeKid = Some ''key-B'',
         keys = [(''key-A'', \<lparr>privateKey = ''PRIVATE-A'', publicKey = ''PUBLIC-A''\<rparr>),
                 (''key-B'', \<lparr>privateKey = ''PRIVATE-B'', publicKey = ''PUBLIC-B''\<rparr>)]\<rparr>,
      jwksCache = []\<rparr>"






lemma select_active_kid_keys [simp]: "keys (select_active_kid env ks) = keys ks"
  by (simp add: select_active_kid_def Let_def split: list.splits)


lemma obj_set_names [simp]: "fst ` set (obj_set obj k v) = insert k (fst ` set obj)"
  by (induction obj) auto

lemma obj_set_distinct [simp]:
  "distinct (map fst (obj_set obj k v)) = distinct (map fst obj)"
  by (induction obj) (auto simp: image_iff)

lemma show_nat_not_Nil [simp]: "show_nat i \<noteq> []"
  by (subst show_nat.simps) simp

lemma or_default_not_Nil [simp]: "d \<noteq> [] \<Longrightarrow> or_default v d \<noteq> []"
  by (simp add: or_default_def split: option.splits)

lemma or_default_not_Nil' [simp]: "d \<noteq> [] \<Longrightarrow> [] \<noteq> or_default v d"
  by (simp add: or_default_def split: option.splits)






lemma wf_store_addKey: "wf_store ks \<Longrightarrow> wf_store (fst (addKey kid private public a ks))"
  by (auto simp: wf_store_def addKey_def Let_def)

lemma wf_store_removeKey: "wf_store ks \<Longrightarrow> wf_store (fst (removeKey kid ks))"
  by (auto simp: wf_store_def removeKey_def obj_delete_def distinct_map_filter)

lemma wf_store_setActiveKid: "wf_store ks \<Longrightarrow> wf_store (fst (setActiveKid kid ks))"
  by (auto simp: wf_store_def setActiveKid_def)

lemma wf_store_remove_keys: "wf_store ks \<Longrightarrow> wf_store (remove_keys kids ks)"
  by (induction kids arbitrary: ks) (auto intro: wf_store_removeKey)

lemma wf_store_purgeExpiredKeys:
  "wf_store (keyStore st) \<Longrightarrow> wf_store (keyStore (fst (purgeExpiredKeys c kidsToPurge m st)))"
  by (simp add: purgeExpiredKeys_store wf_store_remove_keys)

lemma wf_store_rotateToNewKey:
  "wf_store (keyStore st) \<Longrightarrow> wf_store (keyStore (fst (rotateToNewKey env c month st)))"
  by (auto simp: rotateToNewKey_def Let_def refreshJWKS_def wf_store_def addKey_def
      setActiveKid_def split: prod.splits sum.splits if_splits)

text \<open>
  The loading loop stops: a finite environment has a first slot without a key pair, and the
  keys loaded are the same for every bound beyond that slot.
\<close>

lemma decimal_value_snoc:
  "decimal_value (s @ [c]) = 10 * decimal_value s + digit_value c"
  by (simp add: decimal_value_def)

lemma digit_value_char_of: "d < 10 \<Longrightarrow> digit_value (char_of (48 + d)) = d"
  unfolding digit_value_def by (simp add: of_char_of)

lemma decimal_value_show_nat: "decimal_value (show_nat i) = i"
proof (induction i rule: show_nat.induct)
  case (1 i)
  show ?case
  proof (cases "i < 10")
    case True
    then show ?thesis
      by (subst show_nat.simps) (simp add: decimal_value_def digit_value_char_of)
  next
    case False
    with 1 have "decimal_value (show_nat (i div 10)) = i div 10" by simp
    with False show ?thesis
      by (subst show_nat.simps) (simp add: decimal_value_snoc digit_value_char_of)
  qed
qed

lemma show_nat_inject: "show_nat i = show_nat j \<Longrightarrow> i = j"
  by (metis decimal_value_show_nat)

lemma slot_missing:
  assumes "finite (dom env)"
  shows "\<exists>k. loadKeyFromEnv env (i + k) = None"
proof (rule ccontr)
  assume "\<not> (\<exists>k. loadKeyFromEnv env (i + k) = None)"
  then have "\<forall>k. env (''JWT_PRIVATE_KEY_'' @ show_nat (i + k)) \<noteq> None"
    by (auto simp: loadKeyFromEnv_def Let_def split: option.splits)
  then have "range (\<lambda>k. ''JWT_PRIVATE_KEY_'' @ show_nat (i + k)) \<subseteq> dom env"
    by auto
  with assms have "finite (range (\<lambda>k. ''JWT_PRIVATE_KEY_'' @ show_nat (i + k)))"
    by (rule rev_finite_subset)
  moreover have "inj (\<lambda>k. ''JWT_PRIVATE_KEY_'' @ show_nat (i + k))"
    by (auto simp: inj_on_def dest: show_nat_inject)
  ultimately show False
    using finite_imageD infinite_UNIV_nat by blast
qed

lemma load_env_keys_enough_fuel:
  "loadKeyFromEnv env (i + k) = None \<Longrightarrow> k < fuel \<Longrightarrow> k < fuel' \<Longrightarrow>
   load_env_keys env fuel i ks = load_env_keys env fuel' i ks"
proof (induction fuel arbitrary: fuel' i k ks)
  case 0
  then show ?case by simp
next
  case (Suc fuel)
  then obtain f where f: "fuel' = Suc f" by (cases fuel') auto
  show ?case
  proof (cases "loadKeyFromEnv env i")
    case None
    with f show ?thesis by simp
  next
    case (Some loaded)
    obtain kid kp where l: "loaded = (kid, kp)" by (cases loaded)
    from Some Suc.prems(1) obtain k' where k': "k = Suc k'"
      by (cases k) auto
    with Suc.prems f have "loadKeyFromEnv env (Suc i + k') = None" "k' < fuel" "k' < f"
      by simp_all
    from Suc.IH [OF this] Some l f show ?thesis by simp
  qed
qed

lemma load_env_keys_terminates:
  assumes "finite (dom env)"
  shows "\<exists>slots. \<forall>fuel \<ge> slots. load_env_keys env fuel i ks = load_env_keys env slots i ks"
proof -
  from slot_missing [OF assms] obtain k where k: "loadKeyFromEnv env (i + k) = None" by blast
  have "\<forall>fuel \<ge> Suc k. load_env_keys env fuel i ks = load_env_keys env (Suc k) i ks"
  proof (intro allI impI)
    fix fuel
    assume "Suc k \<le> fuel"
    then have "k < fuel" "k < Suc k" by simp_all
    then show "load_env_keys env fuel i ks = load_env_keys env (Suc k) i ks"
      by (rule load_env_keys_enough_fuel [OF k])
  qed
  then show ?thesis by blast
qed






section \<open>Issuing and verifying tokens\<close>

text \<open>
  Claim C7. When the store holds no key, or its active key id is unset or names no entry,
  \<open>generateToken\<close> throws \<open>JWT private key not configured\<close> before it calls the signing
  library, whatever the library is: it returns no token.
\<close>

theorem issue_requires_active_key:
  assumes "keys ks = [] \<or> activeKid ks = None
           \<or> (\<exists>kid. activeKid ks = Some kid \<and> obj_get (keys ks) kid = None)"
  shows "generateToken jwt env now ks claims = Inl (Error ''JWT private key not configured'')"
proof -
  from assms have "getActivePrivateKey ks = None"
    by (auto simp: getActivePrivateKey_def obj_get_def split: option.splits)
  then show ?thesis
    by (simp add: generateToken_def truthy_def)
qed

theorem issue_requires_active_key_witness:
  "keys empty_key_store = []
   \<and> generateToken (symbolic_jwt example_crypto 1000) Map.empty 1000 empty_key_store
        \<lparr>claims_sub = Some ''user-1'', claims_email = Some ''a@b.c'',
         claims_organization_id = None, claims_roles = None\<rparr>
      = Inl (Error ''JWT private key not configured'')"
proof -
  have k: "keys empty_key_store = []" by (simp add: empty_key_store_def)
  then have h: "keys empty_key_store = [] \<or> activeKid empty_key_store = None
           \<or> (\<exists>kid. activeKid empty_key_store = Some kid \<and> obj_get (keys empty_key_store) kid = None)"
    by simp
  show ?thesis
    using k issue_requires_active_key [OF h] by simp
qed















lemma obj_set_not_Nil [simp]: "obj_set obj k v \<noteq> []"
  by (cases obj) auto


lemma object_entries_Nil_iff [simp]: "object_entries obj = [] \<longleftrightarrow> obj = []"
  by (metis set_object_entries set_empty)







definition example_payload :: jwt_payload where
  "example_payload =
     \<lparr>sub = Some ''user-1'', email = Some ''ada@example.org'', organization_id = Some ''org-9'',
      roles = Some [''admin''], iat = 1000, exp = Some 1900,
      iss = ''auth-microservice'', aud = ''educore-ai''\<rparr>"











section \<open>Key rotation\<close>

text \<open>
  Claim C6. When \<open>JWT_PRIVATE_KEY_NEW\<close> or \<open>JWT_PUBLIC_KEY_NEW\<close> is unset or empty, or one of
  them does not parse as a key, \<open>rotateToNewKey\<close> throws and the state it leaves, key store
  and JWKS cache, is the state it found.
\<close>

theorem rotate_rejects_invalid_material:
  assumes "\<not> truthy (env ''JWT_PRIVATE_KEY_NEW'') \<or> \<not> truthy (env ''JWT_PUBLIC_KEY_NEW'')
           \<or> createPrivateKey c (or_default (env ''JWT_PRIVATE_KEY_NEW'') []) = None
           \<or> createPublicKey c (or_default (env ''JWT_PUBLIC_KEY_NEW'') []) = None"
  shows "\<exists>msg. rotateToNewKey env c month st = (st, Inl (Error msg))"
  using assms by (auto simp: rotateToNewKey_def Let_def)

definition garbage_env :: environment where
  "garbage_env =
     map_of [(''JWT_PRIVATE_KEY_NEW'', ''PRIVATE-A''), (''JWT_PUBLIC_KEY_NEW'', ''not a key''),
             (''JWT_NEW_KID'', ''key-C'')]"

theorem rotate_rejects_invalid_material_witness:
  "createPublicKey example_crypto (or_default (garbage_env ''JWT_PUBLIC_KEY_NEW'') []) = None
   \<and> rotateToNewKey garbage_env example_crypto ''2025-01'' example_state
       = (example_state, Inl (Error ''Invalid key format''))
   \<and> rotateToNewKey Map.empty example_crypto ''2025-01'' example_state
       = (example_state,
          Inl (Error ''JWT_PRIVATE_KEY_NEW and JWT_PUBLIC_KEY_NEW must be set for key rotation''))"
proof -
  have g: "createPublicKey example_crypto (or_default (garbage_env ''JWT_PUBLIC_KEY_NEW'') []) = None"
    by (simp add: garbage_env_def example_crypto_def or_default_def)
  have e: "\<not> truthy (Map.empty ''JWT_PRIVATE_KEY_NEW'')"
    by (simp add: truthy_def)
  from rotate_rejects_invalid_material [of garbage_env example_crypto "''2025-01''" example_state]
    rotate_rejects_invalid_material [of Map.empty example_crypto "''2025-01''" example_state]
    g e
  show ?thesis
    by (auto simp: rotateToNewKey_def Let_def garbage_env_def example_crypto_def or_default_def
        truthy_def)
qed

lemma length_object_entries [simp]: "length (object_entries obj) = length obj"
  by (simp add: object_entries_def sum_length_filter_compl)

lemma length_object_keys [simp]: "length (object_keys obj) = length obj"
  by (simp add: object_keys_def)

lemma obj_get_obj_set: "obj_get (obj_set obj k v) k' = (if k' = k then Some v else obj_get obj k')"
  by (induction obj) (auto simp: obj_get_def)

















section \<open>Logout\<close>

text \<open>The promises of the audit service are never rejected: its functions catch every error.\<close>

lemma updateLogoutTimestamp_resolves:
  "updateLogoutTimestamp db uid now = (db', promise) \<Longrightarrow> promise = Inr ()"
  by (auto simp: updateLogoutTimestamp_def split: sum.splits)

lemma logLogin_resolves:
  "logLogin db uid mail org provider now = (db', promise) \<Longrightarrow> promise = Inr ()"
  by (auto simp: logLogin_def split: sum.splits)

text \<open>
  Claim C9. Whatever the request carries and whatever state the audit store is in, also when
  its operations throw, \<open>logout\<close> clears the cookie \<open>access_token\<close> and answers with status 200
  and the message \<open>Logged out successfully\<close>.
\<close>

theorem logout_always_succeeds:
  "res_status (fst (logout jwt now cookie db)) = 200
   \<and> res_body (fst (logout jwt now cookie db))
       = Json (JObj [(''message'', JStr ''Logged out successfully'')])
   \<and> res_cookies (fst (logout jwt now cookie db)) = [ClearCookie ''access_token'']
   \<and> apply_cookies (res_cookies (fst (logout jwt now cookie db))) jar ''access_token'' = None"
proof -
  have r: "fst (logout jwt now cookie db)
      = \<lparr>res_status = 200,
         res_body = Json (JObj [(''message'', JStr ''Logged out successfully'')]),
         res_cookies = [ClearCookie ''access_token'']\<rparr>"
    by (auto simp: logout_def Let_def split: option.splits prod.splits sum.splits
        dest: updateLogoutTimestamp_resolves)
  show ?thesis
    unfolding r by (simp add: apply_cookies_def)
qed

definition failing_audit_db :: audit_db where
  "failing_audit_db =
     \<lparr>connected = True, failing = True,
      records = [\<lparr>rec_user_id = Some ''user-1'', rec_email = Some ''ada@example.org'',
                  rec_provider = ''github'', rec_company_id = Some ''org-9'',
                  login_at = 900, logout_at = None\<rparr>]\<rparr>"

theorem logout_always_succeeds_witness:
  "set_logout failing_audit_db (Some ''user-1'') 1200 = Inl (Error ''findOne failed'')
   \<and> logout (symbolic_jwt example_crypto 1200) 1200
        (Some (Token ''RS256'' (Some ''key-B'') example_payload 2)) failing_audit_db
     = (\<lparr>res_status = 200,
         res_body = Json (JObj [(''message'', JStr ''Logged out successfully'')]),
         res_cookies = [ClearCookie ''access_token'']\<rparr>, failing_audit_db)"
proof -
  have f: "set_logout failing_audit_db (Some ''user-1'') 1200 = Inl (Error ''findOne failed'')"
    by (simp add: set_logout_def failing_audit_db_def truthy_def)
  have d: "snd (logout (symbolic_jwt example_crypto 1200) 1200
        (Some (Token ''RS256'' (Some ''key-B'') example_payload 2)) failing_audit_db)
      = failing_audit_db"
    using f
    by (simp add: logout_def Let_def symbolic_jwt_def example_payload_def
        updateLogoutTimestamp_def)
  from logout_always_succeeds [of "symbolic_jwt example_crypto 1200" 1200
      "Some (Token ''RS256'' (Some ''key-B'') example_payload 2)" failing_audit_db Map.empty]
    f d
  show ?thesis
    by (cases "logout (symbolic_jwt example_crypto 1200) 1200
        (Some (Token ''RS256'' (Some ''key-B'') example_payload 2)) failing_audit_db")
       (cases "fst (logout (symbolic_jwt example_crypto 1200) 1200
        (Some (Token ''RS256'' (Some ''key-B'') example_payload 2)) failing_audit_db)", simp)
qed

section \<open>The OAuth callback\<close>














definition example_world :: oauth_world where
  "example_world =
     \<lparr>oauthClients = (\<lambda>provider. provider \<in> set [''google'', ''github'', ''linkedin'']),
      github_token = Returns (Some ''gho_1''),
      github_user_email = Returns None,
      github_emails = Returns [(Some ''ada@example.org'', True)],
      linkedin_token = Returns (Some ''li_1''),
      linkedin_email = Returns (Some ''ada@example.org''),
      oidc_callback = Returns (),
      oidc_userinfo = Returns (Some ''ada@example.org'', None),
      coordinator = Replied (Some \<lparr>dir_user_id = Some ''user-1'',
                                    dir_organization_id = Some ''org-9'',
                                    dir_roles = Some [''admin'']\<rparr>),
      encodeURIComponent = (\<lambda>s. s),
      url_hostname = (\<lambda>s. Some ''localhost'')\<rparr>"

definition example_audit_db :: audit_db where
  "example_audit_db = \<lparr>connected = True, failing = False, records = []\<rparr>"

text \<open>The cookies of the user agent after \<open>initiateOAuth\<close>, and the request that sends them back.\<close>

definition initiated_jar :: "string \<Rightarrow> token cookie_jar" where
  "initiated_jar provider =
     apply_cookies
       (res_cookies (initiateOAuth example_world provider ''state-1'' ''verifier-1''
          (Returns ''https://provider.example/authorize'')))
       Map.empty"

definition request_cookies :: "'tok cookie_jar \<Rightarrow> string \<Rightarrow> string option" where
  "request_cookies jar name = (case jar name of Some (Text s) \<Rightarrow> Some s | _ \<Rightarrow> None)"

definition example_callback :: "string \<Rightarrow> string \<Rightarrow> callback_request" where
  "example_callback provider returned_state =
     \<lparr>req_provider = provider, req_code = Some (QString ''code-1''),
      req_state = Some (QString returned_state), req_error = None,
      req_cookies = request_cookies (initiated_jar provider)\<rparr>"



text \<open>
  The two early returns, for a provider error and for a missing code or state, write no cookie
  at all, unlike every later failure path: the state cookie is still held after them.
\<close>

lemma callback_provider_error_keeps_cookies:
  "res_cookies (fst (handleCallback (symbolic_jwt example_crypto 1000) Map.empty 1000
       (keyStore example_state) example_world
       ((example_callback ''google'' ''state-1'')\<lparr>req_error := Some (QString ''access_denied'')\<rparr>)
       example_audit_db)) = []
   \<and> res_cookies (fst (handleCallback (symbolic_jwt example_crypto 1000) Map.empty 1000
       (keyStore example_state) example_world
       ((example_callback ''google'' ''state-1'')\<lparr>req_code := None\<rparr>)
       example_audit_db)) = []
   \<and> apply_cookies [] (initiated_jar ''google'') (state_cookie ''google'') = Some (Text ''state-1'')"
  by code_simp

section \<open>The Coordinator endpoint\<close>

text \<open>The fields the handlers and the dispatcher write.\<close>

definition written_fields :: "string list" where
  "written_fields = [''jwks'', ''keys'', ''message'', ''status'', ''error'']"

text \<open>
  A document keeps the frame of a template when, for a template that is an object, it is an
  object with the same property names in the same order whose properties other than the
  written fields have the values of the template, and otherwise it is the template.
\<close>

definition same_frame :: "json \<Rightarrow> json \<Rightarrow> bool" where
  "same_frame template document =
     (case template of
        JObj t \<Rightarrow>
          (case document of
             JObj d \<Rightarrow>
               map fst d = map fst t
               \<and> (\<forall>name. name \<notin> set written_fields \<longrightarrow> obj_get d name = obj_get t name)
           | _ \<Rightarrow> False)
      | _ \<Rightarrow> document = template)"

lemma same_frame_refl [simp]: "same_frame t t"
  by (cases t) (simp_all add: same_frame_def)

lemma obj_set_names_present:
  "name \<in> fst ` set props \<Longrightarrow> map fst (obj_set props name v) = map fst props"
  by (induction props) auto

lemma same_frame_assign:
  assumes "name \<in> set written_fields" and "same_frame t d"
  shows "same_frame t (assign_if_defined name v d)"
proof (cases t)
  case (JObj tprops)
  with assms(2) obtain dprops where d: "d = JObj dprops"
    and names: "map fst dprops = map fst tprops"
    and rest: "\<forall>other. other \<notin> set written_fields \<longrightarrow> obj_get dprops other = obj_get tprops other"
    by (auto simp: same_frame_def split: json.splits)
  show ?thesis
  proof (cases "obj_get dprops name = None")
    case True
    with d assms(2) show ?thesis by simp
  next
    case False
    then have "name \<in> fst ` set dprops" by (simp add: obj_get_None_iff)
    then have "map fst (obj_set dprops name v) = map fst tprops"
      using names by (simp add: obj_set_names_present)
    moreover have "\<forall>other. other \<notin> set written_fields \<longrightarrow>
        obj_get (obj_set dprops name v) other = obj_get tprops other"
      using rest assms(1) by (auto simp: obj_get_obj_set)
    ultimately show ?thesis
      using JObj d False by (simp add: same_frame_def)
  qed
next
qed (use assms(2) in \<open>auto simp: same_frame_def\<close>)


lemma same_frame_handleGetJwks:
  "same_frame t response \<Longrightarrow> same_frame t (handleGetJwks c ks response)"
  by (simp add: handleGetJwks_def Let_def same_frame_assign written_fields_def)

lemma same_frame_handlePerformLogout:
  "same_frame t response \<Longrightarrow> same_frame t (fst (handlePerformLogout payload response db now))"
  by (auto simp: handlePerformLogout_def Let_def same_frame_assign written_fields_def
      split: prod.splits sum.splits)

text \<open>
  Claim C10, as amended. For every request whose body is an object or array, or a string that
  \<open>JSON.parse\<close> accepts, the document sent keeps the frame of the response template of the
  request, on every path: \<open>get-jwks\<close>, \<open>perform-logout\<close>, no action, unknown action and the
  internal error. No field is added, and only \<open>jwks\<close>, \<open>keys\<close>, \<open>message\<close>, \<open>status\<close> and
  \<open>error\<close> can differ from the template.
\<close>

theorem coordinator_response_frame:
  assumes "parse_body json_parse body = Some requestBody"
  shows "same_frame (response_template requestBody)
           (snd (fst (handleCoordinatorRequest c ks json_parse js_string now body db)))"
proof (cases "js_get requestBody ''payload''")
  case (Inl err)
  with assms show ?thesis
    by (simp add: handleCoordinatorRequest_def same_frame_assign written_fields_def)
next
  case (Inr p)
  let ?t = "response_template requestBody"
  have e: "\<And>v. same_frame ?t (assign_if_defined ''error'' v ?t)"
    by (simp add: same_frame_assign written_fields_def)
  have g: "same_frame ?t (handleGetJwks c ks ?t)"
    by (simp add: same_frame_handleGetJwks)
  have l: "\<And>payload answer db'. handlePerformLogout payload ?t db now = (answer, db')
      \<Longrightarrow> same_frame ?t answer"
    using same_frame_handlePerformLogout [of ?t ?t _ db now] by (metis fst_conv same_frame_refl)
  from assms Inr show ?thesis
    using e g l
    by (auto simp: handleCoordinatorRequest_def Let_def split: prod.splits)
qed

definition example_request :: json where
  "example_request =
     JObj [(''requester_service'', JStr ''directory''),
           (''payload'', JObj [(''action'', JStr ''get-jwks'')]),
           (''response'', JObj [(''jwks'', JNull), (''trace'', JStr ''t-1'')])]"

theorem coordinator_response_frame_witness:
  "parse_body (\<lambda>raw. None) (BodyParsed example_request) = Some example_request
   \<and> response_template example_request = JObj [(''jwks'', JNull), (''trace'', JStr ''t-1'')]
   \<and> same_frame (JObj [(''jwks'', JNull), (''trace'', JStr ''t-1'')])
       (snd (fst (handleCoordinatorRequest example_crypto empty_key_store (\<lambda>raw. None)
          (\<lambda>j. []) 1000 (BodyParsed example_request) example_audit_db)))
   \<and> snd (fst (handleCoordinatorRequest example_crypto empty_key_store (\<lambda>raw. None)
          (\<lambda>j. []) 1000 (BodyParsed example_request) example_audit_db))
       = JObj [(''jwks'', JObj [(''keys'', JArr [])]), (''trace'', JStr ''t-1'')]"
proof -
  have p: "parse_body (\<lambda>raw. None) (BodyParsed example_request) = Some example_request"
    by (simp add: parse_body_def example_request_def)
  have t: "response_template example_request = JObj [(''jwks'', JNull), (''trace'', JStr ''t-1'')]"
    by (simp add: response_template_def example_request_def obj_get_def or_empty_object_def)
  have d: "snd (fst (handleCoordinatorRequest example_crypto empty_key_store (\<lambda>raw. None)
          (\<lambda>j. []) 1000 (BodyParsed example_request) example_audit_db))
       = JObj [(''jwks'', JObj [(''keys'', JArr [])]), (''trace'', JStr ''t-1'')]"
    by code_simp
  from coordinator_response_frame [OF p, of example_crypto empty_key_store "\<lambda>j. []" 1000
      example_audit_db] p t d
  show ?thesis by simp
qed

text \<open>
  The claim fails for a request whose body does not parse: there is no template, and the
  document sent is a new object with the field \<open>error\<close>.
\<close>

theorem coordinator_response_frame_counterexample:
  "handleCoordinatorRequest example_crypto empty_key_store (\<lambda>raw. None) (\<lambda>j. []) 1000
      (BodyText ''{ response: '') example_audit_db
     = ((400, JObj [(''error'', JStr ''Invalid JSON in request body'')]), example_audit_db)
   \<and> handleCoordinatorRequest example_crypto empty_key_store (\<lambda>raw. None) (\<lambda>j. []) 1000
      BodyOther example_audit_db
     = ((400, JObj [(''error'', JStr ''Invalid JSON in request body'')]), example_audit_db)"
  by (simp add: handleCoordinatorRequest_def parse_body_def)

end
